theory Spec2Isabelle
  imports Main
begin

section \<open>Routing composables (packages/nuxt/src/app/composables/router.ts)\<close>

subsection \<open>Values\<close>

text \<open>
  A navigation target is \<^verbatim>\<open>RouteLocationRaw | undefined | null\<close>: a string, or a
  location object whose \<^verbatim>\<open>path\<close> may be absent (a named location).
\<close>

record RouteLocationObject =
  path :: "string option"
  name :: "string option"

datatype RouteLocationRaw =
    TNull
  | TUndefined
  | TString string
  | TObject RouteLocationObject

record NavigateToOptions =
  replace :: "bool option"
  redirectCode :: "int option"
  external :: "bool option"

text \<open>The argument of \<^verbatim>\<open>abortNavigation\<close>: \<^verbatim>\<open>string | Partial<NuxtError>\<close>.\<close>

record NuxtError =
  statusCode :: "int option"
  message :: "string option"

datatype AbortError = ErrString string | ErrObject NuxtError

record AddRouteMiddlewareOptions =
  global :: "bool option"

text \<open>
  \<^verbatim>\<open>nuxtApp._middleware\<close>: the list of global middleware and the name-keyed mapping of
  named middleware. Middleware functions are opaque values of type \<open>'mw\<close>.
\<close>

record 'mw Middleware =
  global :: "'mw list"
  named :: "string \<rightharpoonup> 'mw"

record 'mw NuxtApp =
  processingMiddleware :: bool
  ssrEvent :: bool
  middleware :: "'mw Middleware"

text \<open>
  Everything \<^verbatim>\<open>navigateTo\<close> reads from its surroundings. \<open>nuxtApp = None\<close> is the
  situation in which \<^verbatim>\<open>useNuxtApp()\<close> throws (no Nuxt instance is available, as after an
  \<^verbatim>\<open>await\<close> in an async middleware). The functions of the \<^verbatim>\<open>ufo\<close> package and of the
  router are parameters: \<open>hasProtocol\<close> is \<^verbatim>\<open>hasProtocol(_, { acceptRelative: true })\<close>,
  \<open>parseURL_protocol\<close> is \<^verbatim>\<open>parseURL(_).protocol\<close>, \<open>resolve_fullPath\<close> is
  \<^verbatim>\<open>router.resolve(_).fullPath\<close>, \<open>baseURL\<close> is \<^verbatim>\<open>useRuntimeConfig().app.baseURL\<close>.
\<close>

record 'mw Env =
  process_client :: bool
  process_server :: bool
  process_dev :: bool
  nuxtApp :: "'mw NuxtApp option"
  hasProtocol :: "string \<Rightarrow> bool"
  parseURL_protocol :: "string \<Rightarrow> string option"
  joinURL :: "string \<Rightarrow> string \<Rightarrow> string"
  baseURL :: string
  resolve_fullPath :: "RouteLocationRaw \<Rightarrow> string"

datatype Error =
    ExternalNotAllowed
  | ScriptProtocol
  | NuxtInstanceUnavailable
  | AbortOutsideMiddleware
  | CreatedError AbortError
  | ReferenceError

text \<open>
  What a call does besides returning. \<open>RouterBeforeEach fullPath location code\<close> registers
  the guard that issues the redirect to \<open>location\<close> once the final route's full path is
  \<open>fullPath\<close>; the other actions happen as part of the call.
\<close>

datatype Action =
    CallHook string
  | SendRedirect string int
  | RouterBeforeEach string string int
  | LocationReplace string
  | LocationHref string
  | RouterPush RouteLocationRaw
  | RouterReplace RouteLocationRaw

text \<open>
  What a call comes back with: an error thrown, the target returned as it is, a promise, or
  the value \<^verbatim>\<open>false\<close>. A promise settles with \<^verbatim>\<open>false\<close>, with \<^verbatim>\<open>undefined\<close>, or
  with what \<^verbatim>\<open>router.push\<close> or \<^verbatim>\<open>router.replace\<close> gives.
\<close>

datatype Settled = SFalse | SUndefined | SRouter

datatype Outcome =
    Throw Error
  | Return RouteLocationRaw
  | ReturnPromise Settled
  | ReturnFalse

subsection \<open>Operations\<close>

text \<open>
  JavaScript truthiness of the values that the code tests: a string is falsy when it is
  empty, \<^verbatim>\<open>null\<close> and \<^verbatim>\<open>undefined\<close> are falsy, an object is truthy. For the options,
  \<open>None\<close> is a field that is absent (or an options object that was not passed).
\<close>

definition truthy_string :: "string \<Rightarrow> bool" where
  "truthy_string s = (s \<noteq> [])"

fun truthy_to :: "RouteLocationRaw \<Rightarrow> bool" where
  "truthy_to TNull = False"
| "truthy_to TUndefined = False"
| "truthy_to (TString s) = truthy_string s"
| "truthy_to (TObject obj) = True"

fun truthy_err :: "AbortError \<Rightarrow> bool" where
  "truthy_err (ErrString s) = truthy_string s"
| "truthy_err (ErrObject e) = True"

definition opt_external :: "NavigateToOptions option \<Rightarrow> bool" where
  "opt_external options = (case options of None \<Rightarrow> False | Some opts \<Rightarrow> external opts = Some True)"

definition opt_replace :: "NavigateToOptions option \<Rightarrow> bool" where
  "opt_replace options = (case options of None \<Rightarrow> False | Some opts \<Rightarrow> replace opts = Some True)"

definition opt_redirectCode :: "NavigateToOptions option \<Rightarrow> int" where
  "opt_redirectCode options =
     (case options of
        None \<Rightarrow> 302
      | Some opts \<Rightarrow> (case redirectCode opts of None \<Rightarrow> 302 | Some c \<Rightarrow> if c = 0 then 302 else c))"

text \<open>
  \<^verbatim>\<open>isProcessingMiddleware\<close> answers \<^verbatim>\<open>true\<close> when the flag of the application is set,
  and also when \<^verbatim>\<open>useNuxtApp()\<close> throws.
\<close>

definition isProcessingMiddleware :: "'mw Env \<Rightarrow> bool" where
  "isProcessingMiddleware env =
     (case nuxtApp env of None \<Rightarrow> True | Some app \<Rightarrow> processingMiddleware app)"

text \<open>
  \<^verbatim>\<open>navigateTo\<close>, in the order of the source: the default for a falsy target, the path of
  the target, the two checks on external targets, the early return on the client, the call
  of \<^verbatim>\<open>useRouter()\<close> (which needs the Nuxt instance), the redirect on the server, and
  the navigation on the client. The object \<^verbatim>\<open>location\<close> exists in the browser only: when
  the code reaches it on the server (an external target and no request event), the
  reference throws.
\<close>

definition default_to :: "RouteLocationRaw \<Rightarrow> RouteLocationRaw" where
  "default_to to = (if \<not> truthy_to to then TString ''/'' else to)"

fun toPath_of :: "RouteLocationRaw \<Rightarrow> string" where
  "toPath_of (TString s) = s"
| "toPath_of (TObject obj) =
     (case path obj of None \<Rightarrow> ''/'' | Some p \<Rightarrow> if truthy_string p then p else ''/'')"
| "toPath_of TNull = ''/''"
| "toPath_of TUndefined = ''/''"

fun is_string :: "RouteLocationRaw \<Rightarrow> bool" where
  "is_string (TString s) = True"
| "is_string _ = False"

definition navigateTo ::
  "'mw Env \<Rightarrow> RouteLocationRaw \<Rightarrow> NavigateToOptions option \<Rightarrow> Outcome \<times> Action list" where
  "navigateTo env to0 options =
     (let to = default_to to0;
          toPath = toPath_of to;
          isExternal = (opt_external options \<or> hasProtocol env toPath)
      in if isExternal \<and> \<not> opt_external options then (Throw ExternalNotAllowed, [])
         else if isExternal \<and> parseURL_protocol env toPath = Some ''script:''
         then (Throw ScriptProtocol, [])
         else
           let inMiddleware = isProcessingMiddleware env
           in if process_client env \<and> \<not> isExternal \<and> inMiddleware then (Return to, [])
              else
                (case nuxtApp env of
                   None \<Rightarrow> (Throw NuxtInstanceUnavailable, [])
                 | Some app \<Rightarrow>
                     if process_server env \<and> ssrEvent app then
                       let fullPath =
                             (if is_string to \<or> isExternal then toPath
                              else (let fp = resolve_fullPath env to
                                    in if truthy_string fp then fp else ''/''));
                           redirectLocation =
                             (if isExternal then toPath else joinURL env (baseURL env) fullPath);
                           code = opt_redirectCode options
                       in if \<not> isExternal \<and> inMiddleware
                          then (Return to, [RouterBeforeEach fullPath redirectLocation code])
                          else (ReturnPromise (if inMiddleware then SFalse else SUndefined),
                                [CallHook ''app:redirected'', SendRedirect redirectLocation code])
                     else if isExternal then
                       (if process_server env then (Throw ReferenceError, [])
                        else (ReturnPromise SUndefined,
                              [if opt_replace options then LocationReplace toPath
                               else LocationHref toPath]))
                     else if opt_replace options then (ReturnPromise SRouter, [RouterReplace to])
                     else (ReturnPromise SRouter, [RouterPush to])))"

definition abortNavigation :: "'mw Env \<Rightarrow> AbortError option \<Rightarrow> Outcome" where
  "abortNavigation env err =
     (if process_dev env \<and> \<not> isProcessingMiddleware env then Throw AbortOutsideMiddleware
      else (case err of
              None \<Rightarrow> ReturnFalse
            | Some e \<Rightarrow> if truthy_err e then Throw (CreatedError e) else ReturnFalse))"

text \<open>
  The first argument of \<^verbatim>\<open>addRouteMiddleware\<close> is a name or, in the one-argument form,
  the middleware itself. The call returns the updated application and what it printed with
  \<^verbatim>\<open>console.warn\<close>. In the last branch \<^verbatim>\<open>global\<close> is false, so the first argument is
  a string; the model leaves the application alone for the other shape, which no call reaches.
\<close>

datatype 'mw NameArg = Name string | Fn 'mw

fun is_name :: "'mw NameArg \<Rightarrow> bool" where
  "is_name (Name n) = True"
| "is_name (Fn f) = False"

definition opt_global :: "AddRouteMiddlewareOptions option \<Rightarrow> bool" where
  "opt_global options =
     (case options of None \<Rightarrow> False | Some opts \<Rightarrow> AddRouteMiddlewareOptions.global opts = Some True)"

definition push_global :: "'mw \<Rightarrow> 'mw NuxtApp \<Rightarrow> 'mw NuxtApp" where
  "push_global mw app =
     app\<lparr>middleware := (middleware app)\<lparr>global := global (middleware app) @ [mw]\<rparr>\<rparr>"

definition set_named :: "string \<Rightarrow> 'mw \<Rightarrow> 'mw NuxtApp \<Rightarrow> 'mw NuxtApp" where
  "set_named n mw app =
     app\<lparr>middleware := (middleware app)\<lparr>named := (named (middleware app))(n \<mapsto> mw)\<rparr>\<rparr>"

definition addRouteMiddleware ::
  "'mw Env \<Rightarrow> 'mw NameArg \<Rightarrow> 'mw option \<Rightarrow> AddRouteMiddlewareOptions option
     \<Rightarrow> Error + ('mw NuxtApp \<times> string list)" where
  "addRouteMiddleware env nm middleware_arg options =
     (case nuxtApp env of
        None \<Rightarrow> Inl NuxtInstanceUnavailable
      | Some app \<Rightarrow>
          let is_global = (opt_global options \<or> \<not> is_name nm);
              mw = (case nm of Fn f \<Rightarrow> Some f | Name n \<Rightarrow> middleware_arg)
          in (case mw of
                None \<Rightarrow>
                  Inr (app, [''[nuxt] No route middleware passed to `addRouteMiddleware`.''])
              | Some f \<Rightarrow>
                  if is_global then Inr (push_global f app, [])
                  else (case nm of
                          Name n \<Rightarrow> Inr (set_named n f app, [])
                        | Fn g \<Rightarrow> Inr (app, []))))"

section \<open>The auto-import module (imports/module.ts)\<close>

subsection \<open>Values\<close>

text \<open>
  An entry of the import list (\<^verbatim>\<open>Import\<close> of the \<^verbatim>\<open>unimport\<close> package): the exported
  symbol, the file it comes \<^verbatim>\<open>from\<close>, and a priority that may be undefined.
\<close>

record Import =
  import_name :: string
  import_from :: string
  priority :: "int option"

record Template =
  filename :: string

text \<open>
  A layer of the project: \<^verbatim>\<open>layer.config.srcDir\<close>, \<^verbatim>\<open>layer.config.rootDir\<close>,
  \<^verbatim>\<open>layer.config.imports?.scan\<close> and \<^verbatim>\<open>layer.config.imports?.dirs ?? []\<close>.
\<close>

record Layer =
  srcDir :: string
  rootDir :: string
  layer_scan :: "bool option"
  layer_dirs :: "string list"

datatype WatchEvent = Add | AddDir | Change | Unlink | UnlinkDir

text \<open>
  What \<^verbatim>\<open>setup\<close> is given: \<^verbatim>\<open>options.scan\<close>, the layers and source directory of
  \<^verbatim>\<open>nuxt.options\<close>, and the templates registered with the application. The path functions
  of \<^verbatim>\<open>pathe\<close>, the directory scan of \<^verbatim>\<open>unimport\<close> (with its file filter) and what the
  handlers registered for the hooks \<^verbatim>\<open>imports:dirs\<close> and \<^verbatim>\<open>imports:extend\<close> do to the
  array they receive are parameters.
\<close>

record Nuxt =
  scan :: bool
  isNuxtV4 :: bool
  layers :: "Layer list"
  options_srcDir :: string
  templates :: "Template list"
  resolve :: "string list \<Rightarrow> string"
  normalize :: "string \<Rightarrow> string"
  imports_dirs :: "string list \<Rightarrow> string list"
  scanDirExports :: "string list \<Rightarrow> Import list"
  imports_extend :: "Import list \<Rightarrow> Import list"

text \<open>
  The calls that leave the module, in the order in which they are made, and the dynamic
  import list of the \<^verbatim>\<open>unimport\<close> context.
\<close>

datatype Event =
    ClearImports
  | ScanDirs "string list"
  | HookCalled string
  | Persist "Import list"
  | UpdateTemplates "Template list"
  | LoggerInfo string

record ModuleState =
  dynamicImports :: "Import list"
  log :: "Event list"

subsection \<open>Operations\<close>

text \<open>Texts are lists of characters; \<^verbatim>\<open>startsWith\<close> and the length compare them as such.\<close>

definition startsWith :: "string \<Rightarrow> string \<Rightarrow> bool" where
  "startsWith s p = (take (length p) s = p)"

definition endsWith :: "string \<Rightarrow> string \<Rightarrow> bool" where
  "endsWith s suf = (length suf \<le> length s \<and> drop (length s - length suf) s = suf)"

text \<open>
  \<^verbatim>\<open>/\/imports\.(?:d\.ts|mjs)$/.test(s)\<close>: some position of \<open>s\<close> starts a match, which is
  one of the two literal texts followed by the end of the input.
\<close>

definition IMPORTS_TEMPLATE_RE :: "string \<Rightarrow> bool" where
  "IMPORTS_TEMPLATE_RE s =
     list_ex (\<lambda>i. drop i s = ''/imports.d.ts'' \<or> drop i s = ''/imports.mjs'') [0..<Suc (length s)]"

definition isImportsTemplate :: "Template \<Rightarrow> bool" where
  "isImportsTemplate template = IMPORTS_TEMPLATE_RE (filename template)"

definition layer_composablesDirs :: "Nuxt \<Rightarrow> Layer \<Rightarrow> string list" where
  "layer_composablesDirs nuxt layer =
     (if layer_scan layer = Some False then []
      else [resolve nuxt [srcDir layer, ''composables''], resolve nuxt [srcDir layer, ''utils'']]
           @ (if isNuxtV4 nuxt
              then [resolve nuxt [rootDir layer, ''shared'', ''utils''],
                    resolve nuxt [rootDir layer, ''shared'', ''types'']]
              else [])
           @ map (\<lambda>dir. resolve nuxt [srcDir layer, dir]) (filter truthy_string (layer_dirs layer)))"

definition composablesDirs :: "Nuxt \<Rightarrow> string list" where
  "composablesDirs nuxt =
     (if scan nuxt
      then map (normalize nuxt) (imports_dirs nuxt (concat (map (layer_composablesDirs nuxt) (layers nuxt))))
      else [])"

text \<open>
  \<^verbatim>\<open>layers.map((layer, i) => [srcDir, -i]).sort(([a], [b]) => b.length - a.length)\<close>:
  longest source directory first, equal lengths in layer order.
\<close>

definition priorities :: "Nuxt \<Rightarrow> (string \<times> int) list" where
  "priorities nuxt =
     sort_key (\<lambda>p. - int (length (fst p)))
       (map (\<lambda>(i, layer). (srcDir layer, - int i)) (enumerate 0 (layers nuxt)))"

definition with_priority :: "(string \<times> int) list \<Rightarrow> Import \<Rightarrow> Import" where
  "with_priority ps i =
     (let found = map_option snd (find (\<lambda>p. startsWith (import_from i) (fst p)) ps)
      in i\<lparr>priority := (case priority i of
                          None \<Rightarrow> found
                        | Some n \<Rightarrow> if n = 0 then found else Some n)\<rparr>)"

text \<open>
  The steps of \<^verbatim>\<open>regenerateImports\<close>. The callback given to
  \<^verbatim>\<open>ctx.modifyDynamicImports\<close> works on the dynamic import list itself: it empties it,
  pushes the scanned entries (each with the priority of the first matching layer when it has
  none of its own), and hands it to the hook; the list it returns is kept by the context.
  Then \<^verbatim>\<open>updateTemplates\<close> re-renders the registered templates that pass the filter.
\<close>

definition clear_imports :: "ModuleState \<Rightarrow> ModuleState" where
  "clear_imports st = st\<lparr>dynamicImports := [], log := log st @ [ClearImports]\<rparr>"

definition scan_imports :: "Nuxt \<Rightarrow> ModuleState \<Rightarrow> ModuleState" where
  "scan_imports nuxt st =
     (let scannedImports =
            map (with_priority (priorities nuxt)) (scanDirExports nuxt (composablesDirs nuxt))
      in st\<lparr>dynamicImports := dynamicImports st @ scannedImports,
            log := log st @ [ScanDirs (composablesDirs nuxt)]\<rparr>)"

definition extend_imports :: "Nuxt \<Rightarrow> ModuleState \<Rightarrow> ModuleState" where
  "extend_imports nuxt st =
     st\<lparr>dynamicImports := imports_extend nuxt (dynamicImports st),
        log := log st @ [HookCalled ''imports:extend'']\<rparr>"

definition persist_imports :: "ModuleState \<Rightarrow> ModuleState" where
  "persist_imports st = st\<lparr>log := log st @ [Persist (dynamicImports st)]\<rparr>"

definition updateTemplates :: "Nuxt \<Rightarrow> (Template \<Rightarrow> bool) \<Rightarrow> ModuleState \<Rightarrow> ModuleState" where
  "updateTemplates nuxt flt st = st\<lparr>log := log st @ [UpdateTemplates (filter flt (templates nuxt))]\<rparr>"

definition regenerateImports :: "Nuxt \<Rightarrow> ModuleState \<Rightarrow> ModuleState" where
  "regenerateImports nuxt st =
     (let st1 = clear_imports st;
          st2 = (if scan nuxt then scan_imports nuxt st1 else st1);
          st3 = extend_imports nuxt st2;
          st4 = persist_imports st3
      in updateTemplates nuxt isImportsTemplate st4)"




definition app_templatesGenerated :: "Nuxt \<Rightarrow> Template list \<Rightarrow> ModuleState \<Rightarrow> ModuleState" where
  "app_templatesGenerated nuxt updated st =
     (if list_ex (\<lambda>t. \<not> isImportsTemplate t) updated then regenerateImports nuxt st else st)"

section \<open>Example values\<close>

text \<open>
  A client inside a middleware, and a small project with one layer. The stand-ins for the
  functions of \<^verbatim>\<open>ufo\<close> and \<^verbatim>\<open>pathe\<close> agree with the packages on the inputs used below.
  \<^verbatim>\<open>hasProtocol\<close> (with \<^verbatim>\<open>acceptRelative\<close>) accepts a text that starts with two or more
  word characters and a colon, or with two slashes. \<^verbatim>\<open>parseURL\<close> reports no protocol for a
  text that \<^verbatim>\<open>hasProtocol\<close> refuses; for the others it reports the text in front of
  \<^verbatim>\<open>//\<close>, and the empty protocol when the colon is not followed by \<^verbatim>\<open>//\<close>. \<^verbatim>\<open>joinURL\<close>
  skips a segment that is empty or \<^verbatim>\<open>/\<close>, and otherwise joins base and segment with one
  slash.
\<close>

definition word_char :: "char \<Rightarrow> bool" where
  "word_char c = (c \<in> set ''abcdefghijklmnopqrstuvwxyzABCDEFGHIJKLMNOPQRSTUVWXYZ0123456789_'')"

definition example_hasProtocol :: "string \<Rightarrow> bool" where
  "example_hasProtocol s =
     (let w = takeWhile word_char s
      in (2 \<le> length w \<and> startsWith (drop (length w) s) '':'') \<or> startsWith s ''//'')"

definition example_protocol :: "string \<Rightarrow> string option" where
  "example_protocol s =
     (if \<not> example_hasProtocol s then None
      else
        let w = takeWhile word_char s
        in if 2 \<le> length w \<and> startsWith (drop (length w) s) ''://'' then Some (w @ '':'')
           else Some [])"

definition example_joinURL :: "string \<Rightarrow> string \<Rightarrow> string" where
  "example_joinURL base segment =
     (if segment = [] \<or> segment = ''/'' then base
      else if base = [] then segment
      else (if endsWith base ''/'' then base else base @ ''/'')
           @ (if startsWith segment ''/'' then drop 1 segment else segment))"

definition example_app :: "nat NuxtApp" where
  "example_app =
     \<lparr>processingMiddleware = True, ssrEvent = False,
      middleware = \<lparr>global = [1, 2], named = [''auth'' \<mapsto> 3]\<rparr>\<rparr>"

definition example_env :: "nat Env" where
  "example_env =
     \<lparr>process_client = True, process_server = False, process_dev = False,
      nuxtApp = Some example_app,
      hasProtocol = example_hasProtocol,
      parseURL_protocol = example_protocol,
      joinURL = example_joinURL,
      baseURL = [],
      resolve_fullPath = toPath_of\<rparr>"

definition example_resolve :: "string list \<Rightarrow> string" where
  "example_resolve segments = foldr (\<lambda>s acc. if acc = [] then s else s @ ''/'' @ acc) segments []"

definition example_layer :: Layer where
  "example_layer = \<lparr>srcDir = ''/app'', rootDir = ''/app'', layer_scan = None, layer_dirs = [''stores'', []]\<rparr>"

definition example_scanned :: Import where
  "example_scanned = \<lparr>import_name = ''useFoo'', import_from = ''/app/composables/useFoo.ts'', priority = None\<rparr>"

definition example_extended :: Import where
  "example_extended = \<lparr>import_name = ''useBar'', import_from = ''bar-module'', priority = Some 1\<rparr>"

definition example_nuxt :: Nuxt where
  "example_nuxt =
     \<lparr>scan = True, isNuxtV4 = False, layers = [example_layer], options_srcDir = ''/app'',
      templates = [\<lparr>filename = ''types/imports.d.ts''\<rparr>, \<lparr>filename = ''app.config.mjs''\<rparr>],
      resolve = example_resolve, normalize = (\<lambda>dir. dir), imports_dirs = (\<lambda>dirs. dirs),
      scanDirExports = (\<lambda>dirs. if ''/app/composables'' \<in> set dirs then [example_scanned] else []),
      imports_extend = (\<lambda>imports. imports @ [example_extended])\<rparr>"

definition example_state :: ModuleState where
  "example_state =
     \<lparr>dynamicImports = [\<lparr>import_name = ''useOld'', import_from = ''/app/utils/old.ts'', priority = None\<rparr>],
      log = []\<rparr>"

section \<open>Properties of the routing composables\<close>

lemmas example_defs = example_env_def example_app_def example_hasProtocol_def example_protocol_def
  word_char_def startsWith_def

lemma default_to_truthy: "truthy_to to \<Longrightarrow> default_to to = to"
  by (simp add: default_to_def)

lemma default_to_not_nullish: "default_to to \<noteq> TNull \<and> default_to to \<noteq> TUndefined"
  by (cases to) (auto simp add: default_to_def)

lemma default_to_nullish: "default_to TNull = TString ''/''" "default_to TUndefined = TString ''/''"
  by (simp_all add: default_to_def)

lemma default_to_idem: "default_to (default_to to) = default_to to"
  by (cases to) (auto simp add: default_to_def truthy_string_def)

lemma navigateTo_default: "navigateTo env (default_to to) options = navigateTo env to options"
  by (simp add: navigateTo_def default_to_idem)

lemma navigateTo_Return: "navigateTo env to options = (Return r, acts) \<Longrightarrow> r = default_to to"
  by (auto simp add: navigateTo_def Let_def split: if_splits option.splits)

text \<open>
  Claim C1, as amended. On the client, while a route middleware is being processed, a call of
  \<^verbatim>\<open>navigateTo\<close> with an internal target (no \<^verbatim>\<open>external\<close> option, no protocol in the
  path) performs no action at all (no redirect, no change of \<^verbatim>\<open>location\<close>, no router call)
  and returns the target unresolved: the target itself when it is truthy, and \<^verbatim>\<open>'/'\<close> when
  it is null, undefined or the empty string.
\<close>

theorem navigateTo_client_middleware:
  assumes "process_client env" and "isProcessingMiddleware env"
    and "\<not> opt_external options" and "\<not> hasProtocol env (toPath_of (default_to to))"
  shows "navigateTo env to options = (Return (default_to to), [])
         \<and> (truthy_to to \<longrightarrow> navigateTo env to options = (Return to, []))
         \<and> (\<not> truthy_to to \<longrightarrow> navigateTo env to options = (Return (TString ''/''), []))"
proof -
  have "navigateTo env to options = (Return (default_to to), [])"
    using assms by (simp add: navigateTo_def Let_def)
  then show ?thesis
    using default_to_truthy [of to] by (auto simp add: default_to_def)
qed

text \<open>The theorem at the internal target \<^verbatim>\<open>'/about'\<close>.\<close>

theorem navigateTo_client_middleware_witness:
  "process_client example_env \<and> isProcessingMiddleware example_env
   \<and> \<not> opt_external None
   \<and> \<not> hasProtocol example_env (toPath_of (default_to (TString ''/about'')))
   \<and> truthy_to (TString ''/about'')
   \<and> navigateTo example_env (TString ''/about'') None = (Return (TString ''/about''), [])"
  using navigateTo_client_middleware [of example_env None "TString ''/about''"]
  by (simp add: example_defs default_to_def opt_external_def truthy_string_def
      isProcessingMiddleware_def)

text \<open>
  The claim as first stated, that the raw target comes back unchanged for every internal
  target, fails at the empty string: \<^verbatim>\<open>navigateTo('')\<close> returns \<^verbatim>\<open>'/'\<close>.
\<close>

theorem navigateTo_client_middleware_counterexample:
  "process_client example_env \<and> isProcessingMiddleware example_env
   \<and> \<not> opt_external None \<and> \<not> hasProtocol example_env (toPath_of (default_to (TString [])))
   \<and> navigateTo example_env (TString []) None = (Return (TString ''/''), [])
   \<and> navigateTo example_env (TString []) None \<noteq> (Return (TString []), [])"
  by (simp add: navigateTo_def Let_def example_defs default_to_def opt_external_def
      truthy_string_def isProcessingMiddleware_def)

text \<open>
  Claim C2. When the path of the target carries a protocol and the caller has not passed
  \<^verbatim>\<open>external: true\<close>, \<^verbatim>\<open>navigateTo\<close> throws the error that external navigation is not
  allowed, and performs no navigation action.
\<close>

theorem navigateTo_external_not_allowed:
  assumes "hasProtocol env (toPath_of (default_to to))" and "\<not> opt_external options"
  shows "navigateTo env to options = (Throw ExternalNotAllowed, [])"
  using assms by (simp add: navigateTo_def Let_def)

text \<open>The theorem at \<^verbatim>\<open>navigateTo('https://example.com')\<close>.\<close>

theorem navigateTo_external_not_allowed_witness:
  "hasProtocol example_env (toPath_of (default_to (TString ''https://example.com'')))
   \<and> \<not> opt_external None
   \<and> navigateTo example_env (TString ''https://example.com'') None = (Throw ExternalNotAllowed, [])"
  using navigateTo_external_not_allowed [of example_env "TString ''https://example.com''" None]
  by (simp add: example_defs default_to_def opt_external_def truthy_string_def)

text \<open>
  What the check of the protocol does achieve: an external target for which
  \<^verbatim>\<open>parseURL\<close> reports the protocol \<^verbatim>\<open>script:\<close> is refused before any action.
\<close>

lemma navigateTo_script_check:
  assumes "opt_external options \<or> hasProtocol env (toPath_of (default_to to))"
    and "parseURL_protocol env (toPath_of (default_to to)) = Some ''script:''"
  shows "navigateTo env to options =
           (Throw (if opt_external options then ScriptProtocol else ExternalNotAllowed), [])"
  using assms by (auto simp add: navigateTo_def Let_def)

lemma example_urls:
  "hasProtocol example_env ''script:alert(1)''"
  "parseURL_protocol example_env ''script:alert(1)'' = Some []"
  "hasProtocol example_env ''script://evil''"
  "parseURL_protocol example_env ''script://evil'' = Some ''script:''"
  "hasProtocol example_env ''https://example.com''"
  "parseURL_protocol example_env ''https://example.com'' = Some ''https:''"
  "\<not> hasProtocol example_env ''/''"
  "parseURL_protocol example_env ''/'' = None"
  "\<not> hasProtocol example_env ''/about''"
  "\<not> hasProtocol example_env []"
  by (simp_all add: example_defs Let_def)

text \<open>
  Claim C10 says that a target with the protocol \<^verbatim>\<open>script:\<close> is never navigated to, also
  when the caller passed \<^verbatim>\<open>external: true\<close>. The code compares the protocol that
  \<^verbatim>\<open>parseURL\<close> reports, and that is the text in front of \<^verbatim>\<open>//\<close>: the call refuses
  \<^verbatim>\<open>script://evil\<close> with the error that it cannot navigate to a URL with script
  protocol, but for \<^verbatim>\<open>script:alert(1)\<close> with \<^verbatim>\<open>external: true\<close>, on the client, it
  assigns the text to \<^verbatim>\<open>location.href\<close> and returns a resolved promise.
\<close>

theorem navigateTo_script_protocol_bypass:
  "opt_external (Some \<lparr>replace = None, redirectCode = None, external = Some True\<rparr>)
   \<and> hasProtocol example_env ''script:alert(1)''
   \<and> parseURL_protocol example_env ''script:alert(1)'' = Some []
   \<and> navigateTo example_env (TString ''script:alert(1)'')
        (Some \<lparr>replace = None, redirectCode = None, external = Some True\<rparr>)
      = (ReturnPromise SUndefined, [LocationHref ''script:alert(1)''])
   \<and> navigateTo example_env (TString ''script://evil'')
        (Some \<lparr>replace = None, redirectCode = None, external = Some True\<rparr>)
      = (Throw ScriptProtocol, [])"
  using example_urls
  by (simp add: navigateTo_def Let_def default_to_def opt_external_def opt_replace_def
      truthy_string_def isProcessingMiddleware_def example_env_def example_app_def)

text \<open>
  Claim C9, as amended. For a null or undefined target \<^verbatim>\<open>navigateTo\<close> does exactly what
  it does for \<^verbatim>\<open>'/'\<close>, in every environment and with every option, and it never returns
  null or undefined. Where \<^verbatim>\<open>'/'\<close> is, as in the \<^verbatim>\<open>ufo\<close> package, a path without
  protocol: the call does not throw when a Nuxt instance is available (an external
  navigation on the server outside a request left aside); and without a Nuxt instance it
  throws, unless it is the early return of the client.
\<close>

theorem navigateTo_nullish:
  assumes "to = TNull \<or> to = TUndefined"
  shows "navigateTo env to options = navigateTo env (TString ''/'') options
         \<and> fst (navigateTo env to options) \<noteq> Return TNull
         \<and> fst (navigateTo env to options) \<noteq> Return TUndefined
         \<and> (\<not> hasProtocol env ''/'' \<and> parseURL_protocol env ''/'' \<noteq> Some ''script:'' \<longrightarrow>
               (\<forall>app. nuxtApp env = Some app
                        \<and> \<not> (opt_external options \<and> process_server env \<and> \<not> ssrEvent app)
                      \<longrightarrow> (\<forall>e. fst (navigateTo env to options) \<noteq> Throw e))
             \<and> (nuxtApp env = None \<and> \<not> (process_client env \<and> \<not> opt_external options)
                  \<longrightarrow> navigateTo env to options = (Throw NuxtInstanceUnavailable, [])))"
proof -
  have eq: "navigateTo env to options = navigateTo env (TString ''/'') options"
    using assms navigateTo_default [of env to options] default_to_nullish by auto
  have ret: "fst (navigateTo env to options) \<noteq> Return TNull"
            "fst (navigateTo env to options) \<noteq> Return TUndefined"
    using navigateTo_Return [of env to options] default_to_not_nullish [of to]
    by (cases "navigateTo env to options"; auto)+
  have thr: "\<forall>e. fst (navigateTo env (TString ''/'') options) \<noteq> Throw e"
    if "\<not> hasProtocol env ''/''" "parseURL_protocol env ''/'' \<noteq> Some ''script:''"
      "nuxtApp env = Some app"
      "\<not> (opt_external options \<and> process_server env \<and> \<not> ssrEvent app)"
    for app
    using that
    by (auto simp add: navigateTo_def Let_def default_to_def truthy_string_def)
  have none: "navigateTo env (TString ''/'') options = (Throw NuxtInstanceUnavailable, [])"
    if "\<not> hasProtocol env ''/''" "parseURL_protocol env ''/'' \<noteq> Some ''script:''"
      "nuxtApp env = None" "\<not> (process_client env \<and> \<not> opt_external options)"
    using that
    by (auto simp add: navigateTo_def Let_def default_to_def truthy_string_def)
  show ?thesis
    unfolding eq using eq ret thr none by auto
qed

text \<open>
  The theorem for \<^verbatim>\<open>null\<close> on the client inside a middleware; for \<^verbatim>\<open>undefined\<close> on
  the server, in a request and outside a middleware, where the redirect to the base URL is
  sent; and for \<^verbatim>\<open>undefined\<close> with \<^verbatim>\<open>external: true\<close> on the client without a Nuxt
  instance.
\<close>

theorem navigateTo_nullish_witness:
  "\<not> hasProtocol example_env ''/'' \<and> parseURL_protocol example_env ''/'' \<noteq> Some ''script:''
   \<and> navigateTo example_env TNull None = (Return (TString ''/''), [])
   \<and> navigateTo (example_env\<lparr>process_client := False, process_server := True,
                   nuxtApp := Some (example_app\<lparr>processingMiddleware := False, ssrEvent := True\<rparr>),
                   baseURL := ''/base''\<rparr>) TUndefined None
       = (ReturnPromise SUndefined, [CallHook ''app:redirected'', SendRedirect ''/base'' 302])
   \<and> navigateTo (example_env\<lparr>nuxtApp := None\<rparr>) TUndefined
        (Some \<lparr>replace = None, redirectCode = None, external = Some True\<rparr>)
       = (Throw NuxtInstanceUnavailable, [])"
proof -
  let ?srv = "example_env\<lparr>process_client := False, process_server := True,
                   nuxtApp := Some (example_app\<lparr>processingMiddleware := False, ssrEvent := True\<rparr>),
                   baseURL := ''/base''\<rparr>"
  let ?lost = "example_env\<lparr>nuxtApp := None\<rparr>"
  let ?ext = "Some \<lparr>replace = None, redirectCode = None, external = Some True\<rparr>"
  have h: "\<not> hasProtocol example_env ''/''" "parseURL_protocol example_env ''/'' \<noteq> Some ''script:''"
    using example_urls by simp_all
  have h': "\<not> hasProtocol ?lost ''/''" "parseURL_protocol ?lost ''/'' \<noteq> Some ''script:''"
    using h by (simp_all add: example_env_def)
  have a: "navigateTo example_env TNull None = navigateTo example_env (TString ''/'') None"
    using navigateTo_nullish [of TNull example_env None] by simp
  have b: "navigateTo example_env (TString ''/'') None = (Return (TString ''/''), [])"
    using h by (simp add: navigateTo_def Let_def example_env_def example_app_def default_to_def
        opt_external_def truthy_string_def isProcessingMiddleware_def)
  have c: "navigateTo ?srv TUndefined None = navigateTo ?srv (TString ''/'') None"
    using navigateTo_nullish [of TUndefined ?srv None] by simp
  have j: "joinURL ?srv (baseURL ?srv) ''/'' = ''/base''"
    by (simp add: example_env_def example_joinURL_def)
  have d: "navigateTo ?srv (TString ''/'') None
             = (ReturnPromise SUndefined, [CallHook ''app:redirected'', SendRedirect ''/base'' 302])"
    using h j by (simp add: navigateTo_def Let_def example_env_def example_app_def default_to_def
        opt_external_def truthy_string_def isProcessingMiddleware_def opt_redirectCode_def)
  have e: "navigateTo ?lost TUndefined ?ext = (Throw NuxtInstanceUnavailable, [])"
  proof -
    have "nuxtApp ?lost = None \<and> \<not> (process_client ?lost \<and> \<not> opt_external ?ext)"
      by (simp add: opt_external_def)
    with navigateTo_nullish [of TUndefined ?lost ?ext] h' show ?thesis by blast
  qed
  show ?thesis using a b c d e h by simp
qed

text \<open>
  The claim as first stated, that the call does not throw for a null target, fails on the
  server without a Nuxt instance: \<^verbatim>\<open>useRouter()\<close> throws, as it does for \<^verbatim>\<open>'/'\<close>.
\<close>

theorem navigateTo_nullish_counterexample:
  "navigateTo (example_env\<lparr>process_client := False, process_server := True, nuxtApp := None\<rparr>)
     TNull None
   = (Throw NuxtInstanceUnavailable, [])"
  using example_urls(7,8)
  by (simp add: navigateTo_def Let_def example_env_def default_to_def opt_external_def
      truthy_string_def isProcessingMiddleware_def)

text \<open>
  Claim C6, as amended. In development mode (\<^verbatim>\<open>process.dev\<close>), a call of
  \<^verbatim>\<open>abortNavigation\<close> outside a route middleware context throws the misuse error, whatever
  its argument. Outside development mode the check is not made: without an argument the call
  returns \<^verbatim>\<open>false\<close>.
\<close>

theorem abortNavigation_outside_dev:
  assumes "\<not> isProcessingMiddleware env"
  shows "(process_dev env \<longrightarrow> abortNavigation env err = Throw AbortOutsideMiddleware)
         \<and> (\<not> process_dev env \<longrightarrow> abortNavigation env None = ReturnFalse)"
  using assms by (simp add: abortNavigation_def)

text \<open>The theorem in development mode, outside a middleware.\<close>

theorem abortNavigation_outside_dev_witness:
  "\<not> isProcessingMiddleware
        (example_env\<lparr>process_dev := True, nuxtApp := Some (example_app\<lparr>processingMiddleware := False\<rparr>)\<rparr>)
   \<and> process_dev
        (example_env\<lparr>process_dev := True, nuxtApp := Some (example_app\<lparr>processingMiddleware := False\<rparr>)\<rparr>)
   \<and> abortNavigation
        (example_env\<lparr>process_dev := True, nuxtApp := Some (example_app\<lparr>processingMiddleware := False\<rparr>)\<rparr>)
        None
      = Throw AbortOutsideMiddleware"
  using abortNavigation_outside_dev
    [of "example_env\<lparr>process_dev := True, nuxtApp := Some (example_app\<lparr>processingMiddleware := False\<rparr>)\<rparr>" None]
  by (simp add: isProcessingMiddleware_def example_defs)

text \<open>
  The claim as first stated, that the call throws whenever it is made outside a middleware
  context, fails in a production build: the call returns \<^verbatim>\<open>false\<close>.
\<close>

theorem abortNavigation_outside_counterexample:
  "\<not> isProcessingMiddleware (example_env\<lparr>nuxtApp := Some (example_app\<lparr>processingMiddleware := False\<rparr>)\<rparr>)
   \<and> \<not> process_dev (example_env\<lparr>nuxtApp := Some (example_app\<lparr>processingMiddleware := False\<rparr>)\<rparr>)
   \<and> abortNavigation (example_env\<lparr>nuxtApp := Some (example_app\<lparr>processingMiddleware := False\<rparr>)\<rparr>) None
       = ReturnFalse"
  by (simp add: abortNavigation_def isProcessingMiddleware_def example_defs)

text \<open>
  Claim C7, as amended. Inside a route middleware context, \<^verbatim>\<open>abortNavigation\<close> without
  an argument returns \<^verbatim>\<open>false\<close> and does not throw; with a truthy argument (a non-empty
  string or an error object) it throws the error created from that argument; with the empty
  string it returns \<^verbatim>\<open>false\<close> as if no argument had been given.
\<close>

theorem abortNavigation_inside:
  assumes "isProcessingMiddleware env"
  shows "abortNavigation env None = ReturnFalse
         \<and> (truthy_err e \<longrightarrow> abortNavigation env (Some e) = Throw (CreatedError e))
         \<and> abortNavigation env (Some (ErrString [])) = ReturnFalse"
  using assms by (simp add: abortNavigation_def truthy_string_def)

text \<open>The theorem at \<^verbatim>\<open>abortNavigation('denied')\<close> inside a middleware.\<close>

theorem abortNavigation_inside_witness:
  "isProcessingMiddleware example_env
   \<and> abortNavigation example_env None = ReturnFalse
   \<and> truthy_err (ErrString ''denied'')
   \<and> abortNavigation example_env (Some (ErrString ''denied'')) = Throw (CreatedError (ErrString ''denied''))"
  using abortNavigation_inside [of example_env "ErrString ''denied''"]
  by (simp add: isProcessingMiddleware_def example_defs truthy_string_def)

text \<open>
  The claim as first stated, that a call with an error argument throws that error, fails at
  the empty string: \<^verbatim>\<open>abortNavigation('')\<close> returns \<^verbatim>\<open>false\<close>.
\<close>

theorem abortNavigation_inside_counterexample:
  "isProcessingMiddleware example_env
   \<and> abortNavigation example_env (Some (ErrString [])) = ReturnFalse"
  by (simp add: abortNavigation_def isProcessingMiddleware_def example_defs truthy_string_def)

text \<open>
  Claim C8. \<^verbatim>\<open>addRouteMiddleware\<close> called with a function alone, or with a name, a function
  and \<^verbatim>\<open>global: true\<close>, leaves the list of global middleware equal to the previous list
  with the function appended at the end, and leaves the named mapping unchanged. Called with
  a name and a function without \<^verbatim>\<open>global: true\<close>, it leaves the global list unchanged and
  changes the named mapping at the given name only, which then holds the function. Nothing
  is printed in these cases.
\<close>

theorem addRouteMiddleware_registry:
  assumes "nuxtApp env = Some app"
  shows "(\<exists>app'. addRouteMiddleware env (Fn f) middleware_arg options = Inr (app', [])
            \<and> global (middleware app') = global (middleware app) @ [f]
            \<and> named (middleware app') = named (middleware app))
       \<and> (opt_global options \<longrightarrow>
           (\<exists>app'. addRouteMiddleware env (Name n) (Some f) options = Inr (app', [])
              \<and> global (middleware app') = global (middleware app) @ [f]
              \<and> named (middleware app') = named (middleware app)))
       \<and> (\<not> opt_global options \<longrightarrow>
           (\<exists>app'. addRouteMiddleware env (Name n) (Some f) options = Inr (app', [])
              \<and> global (middleware app') = global (middleware app)
              \<and> named (middleware app') n = Some f
              \<and> (\<forall>k. k \<noteq> n \<longrightarrow> named (middleware app') k = named (middleware app) k)))"
  using assms by (simp add: addRouteMiddleware_def push_global_def set_named_def)

text \<open>
  The theorem on an application with global middleware 1, 2 and the named middleware
  \<^verbatim>\<open>auth\<close>.
\<close>

theorem addRouteMiddleware_registry_witness:
  "nuxtApp example_env = Some example_app
   \<and> (\<exists>app'. addRouteMiddleware example_env (Fn 7) None None = Inr (app', [])
         \<and> global (middleware app') = [1, 2, 7]
         \<and> named (middleware app') = [''auth'' \<mapsto> 3])
   \<and> (\<exists>app'. addRouteMiddleware example_env (Name ''log'') (Some 7)
                  (Some \<lparr>AddRouteMiddlewareOptions.global = Some True\<rparr>) = Inr (app', [])
         \<and> global (middleware app') = [1, 2, 7]
         \<and> named (middleware app') = [''auth'' \<mapsto> 3])
   \<and> (\<exists>app'. addRouteMiddleware example_env (Name ''log'') (Some 7) None = Inr (app', [])
         \<and> global (middleware app') = [1, 2]
         \<and> named (middleware app') ''log'' = Some 7
         \<and> named (middleware app') ''auth'' = Some 3)"
proof -
  have a: "nuxtApp example_env = Some example_app" by (simp add: example_env_def)
  have g: "opt_global (Some \<lparr>AddRouteMiddlewareOptions.global = Some True\<rparr>)" "\<not> opt_global None"
    by (simp_all add: opt_global_def)
  have m: "global (middleware example_app) = [1, 2]" "named (middleware example_app) = [''auth'' \<mapsto> 3]"
    by (simp_all add: example_app_def)
  note t1 = addRouteMiddleware_registry [OF a, where f = 7 and middleware_arg = None
          and options = "Some \<lparr>AddRouteMiddlewareOptions.global = Some True\<rparr>" and n = "''log''",
          unfolded m]
  note t2 = addRouteMiddleware_registry [OF a, where f = 7 and middleware_arg = None
          and options = None and n = "''log''", unfolded m]
  have 1: "\<exists>app'. addRouteMiddleware example_env (Fn 7) None None = Inr (app', [])
         \<and> global (middleware app') = [1, 2, 7]
         \<and> named (middleware app') = [''auth'' \<mapsto> 3]"
    using t2 by simp
  have 2: "\<exists>app'. addRouteMiddleware example_env (Name ''log'') (Some 7)
                  (Some \<lparr>AddRouteMiddlewareOptions.global = Some True\<rparr>) = Inr (app', [])
         \<and> global (middleware app') = [1, 2, 7]
         \<and> named (middleware app') = [''auth'' \<mapsto> 3]"
    using t1 g(1) by simp
  have 3: "\<exists>app'. addRouteMiddleware example_env (Name ''log'') (Some 7) None = Inr (app', [])
         \<and> global (middleware app') = [1, 2]
         \<and> named (middleware app') ''log'' = Some 7
         \<and> named (middleware app') ''auth'' = Some 3"
    using t2 g(2) by auto
  show ?thesis using a 1 2 3 by blast
qed

section \<open>Properties of the auto-import module\<close>


lemma drop_eq_endsWith: "(\<exists>i\<in>set [0..<Suc (length s)]. drop i s = suf) = endsWith s suf"
proof
  assume "\<exists>i\<in>set [0..<Suc (length s)]. drop i s = suf"
  then obtain i where "i \<in> set [0..<Suc (length s)]" and d: "drop i s = suf" ..
  then have i: "i \<le> length s" by auto
  from d have "length suf = length s - i" by auto
  with i d show "endsWith s suf" by (simp add: endsWith_def)
next
  assume "endsWith s suf"
  then have "drop (length s - length suf) s = suf" by (simp add: endsWith_def)
  moreover have "length s - length suf \<in> set [0..<Suc (length s)]" by auto
  ultimately show "\<exists>i\<in>set [0..<Suc (length s)]. drop i s = suf" by blast
qed

lemma IMPORTS_TEMPLATE_RE_endsWith:
  "IMPORTS_TEMPLATE_RE s = (endsWith s ''/imports.d.ts'' \<or> endsWith s ''/imports.mjs'')"
proof -
  have "IMPORTS_TEMPLATE_RE s =
          ((\<exists>i\<in>set [0..<Suc (length s)]. drop i s = ''/imports.d.ts'')
           \<or> (\<exists>i\<in>set [0..<Suc (length s)]. drop i s = ''/imports.mjs''))"
    unfolding IMPORTS_TEMPLATE_RE_def list_ex_iff by blast
  then show ?thesis by (simp only: drop_eq_endsWith)
qed

lemma regenerateImports_log:
  "log (regenerateImports nuxt st) =
     log st @ [ClearImports]
       @ (if scan nuxt then [ScanDirs (composablesDirs nuxt)] else [])
       @ [HookCalled ''imports:extend'',
          Persist (imports_extend nuxt
                     (if scan nuxt
                      then map (with_priority (priorities nuxt)) (scanDirExports nuxt (composablesDirs nuxt))
                      else [])),
          UpdateTemplates (filter isImportsTemplate (templates nuxt))]"
  by (simp add: regenerateImports_def clear_imports_def scan_imports_def extend_imports_def
      persist_imports_def updateTemplates_def Let_def)

lemma regenerateImports_dynamicImports:
  "dynamicImports (regenerateImports nuxt st) =
     imports_extend nuxt
       (if scan nuxt
        then map (with_priority (priorities nuxt)) (scanDirExports nuxt (composablesDirs nuxt))
        else [])"
  by (simp add: regenerateImports_def clear_imports_def scan_imports_def extend_imports_def
      persist_imports_def updateTemplates_def Let_def)

lemma regenerateImports_changes: "regenerateImports nuxt st \<noteq> st"
proof
  assume "regenerateImports nuxt st = st"
  then have "length (log (regenerateImports nuxt st)) = length (log st)" by simp
  then show False by (simp add: regenerateImports_log)
qed


lemma isImportsTemplate_examples:
  "isImportsTemplate \<lparr>filename = ''types/imports.d.ts''\<rparr>"
  "\<not> isImportsTemplate \<lparr>filename = ''app.config.mjs''\<rparr>"
  "\<not> isImportsTemplate \<lparr>filename = ''imports.mjs''\<rparr>"
  by (simp_all add: isImportsTemplate_def IMPORTS_TEMPLATE_RE_endsWith endsWith_def)




text \<open>
  Claim C3. \<^verbatim>\<open>regenerateImports\<close> makes its calls in this order: it clears the dynamic
  import list; only when scanning is enabled, it scans the composables directories and
  appends what it found; it calls the hook \<^verbatim>\<open>imports:extend\<close> on the list; it persists the
  resulting list; and it re-renders the registered templates that are imports templates,
  that is, whose file name ends in \<^verbatim>\<open>/imports.d.ts\<close> or \<^verbatim>\<open>/imports.mjs\<close>. The persisted
  list is what the hook makes of the scanned entries, and of the empty list when scanning is
  disabled.
\<close>

theorem regenerateImports_steps:
  "log (regenerateImports nuxt st) =
     log st @ [ClearImports]
       @ (if scan nuxt then [ScanDirs (composablesDirs nuxt)] else [])
       @ [HookCalled ''imports:extend'',
          Persist (dynamicImports (regenerateImports nuxt st)),
          UpdateTemplates (filter isImportsTemplate (templates nuxt))]
   \<and> dynamicImports (regenerateImports nuxt st) =
       imports_extend nuxt
         (if scan nuxt
          then [] @ map (with_priority (priorities nuxt)) (scanDirExports nuxt (composablesDirs nuxt))
          else [])
   \<and> (\<not> scan nuxt \<longrightarrow> dynamicImports (regenerateImports nuxt st) = imports_extend nuxt [])
   \<and> (\<forall>t \<in> set (filter isImportsTemplate (templates nuxt)).
         endsWith (filename t) ''/imports.d.ts'' \<or> endsWith (filename t) ''/imports.mjs'')"
  by (simp add: regenerateImports_log regenerateImports_dynamicImports isImportsTemplate_def
      IMPORTS_TEMPLATE_RE_endsWith)

text \<open>The theorem with scanning disabled, on a state that holds an old entry.\<close>

theorem regenerateImports_steps_witness:
  "\<not> scan (example_nuxt\<lparr>scan := False\<rparr>)
   \<and> dynamicImports (regenerateImports (example_nuxt\<lparr>scan := False\<rparr>) example_state) = [example_extended]
   \<and> log (regenerateImports (example_nuxt\<lparr>scan := False\<rparr>) example_state) =
       [ClearImports, HookCalled ''imports:extend'', Persist [example_extended],
        UpdateTemplates [\<lparr>filename = ''types/imports.d.ts''\<rparr>]]"
  using regenerateImports_steps [of "example_nuxt\<lparr>scan := False\<rparr>" example_state]
    isImportsTemplate_examples
  by (simp add: example_nuxt_def example_state_def)



text \<open>
  Claim C5. The handler of \<^verbatim>\<open>app:templatesGenerated\<close> runs the regeneration if and only
  if some updated template is not an imports template, that is, its file name ends neither
  in \<^verbatim>\<open>/imports.d.ts\<close> nor in \<^verbatim>\<open>/imports.mjs\<close>; when every updated template is an
  imports template, the state is left as it was.
\<close>

theorem app_templatesGenerated_regenerates:
  "(app_templatesGenerated nuxt updated st \<noteq> st) =
     (\<exists>t \<in> set updated. \<not> (endsWith (filename t) ''/imports.d.ts'' \<or> endsWith (filename t) ''/imports.mjs''))
   \<and> ((\<exists>t \<in> set updated. \<not> (endsWith (filename t) ''/imports.d.ts'' \<or> endsWith (filename t) ''/imports.mjs''))
        \<longrightarrow> app_templatesGenerated nuxt updated st = regenerateImports nuxt st)
   \<and> ((\<forall>t \<in> set updated. endsWith (filename t) ''/imports.d.ts'' \<or> endsWith (filename t) ''/imports.mjs'')
        \<longrightarrow> app_templatesGenerated nuxt updated st = st)"
  using regenerateImports_changes [of nuxt st]
  by (auto simp add: app_templatesGenerated_def list_ex_iff isImportsTemplate_def
      IMPORTS_TEMPLATE_RE_endsWith)

text \<open>
  The theorem for an update of \<^verbatim>\<open>types/imports.d.ts\<close> alone, and for an update that also
  has \<^verbatim>\<open>app.config.mjs\<close>.
\<close>

theorem app_templatesGenerated_regenerates_witness:
  "app_templatesGenerated example_nuxt [\<lparr>filename = ''types/imports.d.ts''\<rparr>] example_state = example_state
   \<and> app_templatesGenerated example_nuxt
        [\<lparr>filename = ''types/imports.d.ts''\<rparr>, \<lparr>filename = ''app.config.mjs''\<rparr>] example_state
       = regenerateImports example_nuxt example_state
   \<and> app_templatesGenerated example_nuxt
        [\<lparr>filename = ''types/imports.d.ts''\<rparr>, \<lparr>filename = ''app.config.mjs''\<rparr>] example_state
       \<noteq> example_state"
proof -
  let ?imports = "\<lparr>filename = ''types/imports.d.ts''\<rparr>"
  let ?other = "\<lparr>filename = ''app.config.mjs''\<rparr>"
  have a: "\<forall>t \<in> set [?imports].
             endsWith (filename t) ''/imports.d.ts'' \<or> endsWith (filename t) ''/imports.mjs''"
    by (simp add: endsWith_def)
  have b: "\<exists>t \<in> set [?imports, ?other].
             \<not> (endsWith (filename t) ''/imports.d.ts'' \<or> endsWith (filename t) ''/imports.mjs'')"
    by (simp add: endsWith_def)
  from a have 1: "app_templatesGenerated example_nuxt [?imports] example_state = example_state"
    using app_templatesGenerated_regenerates [of example_nuxt "[?imports]" example_state] by blast
  from b have 2: "app_templatesGenerated example_nuxt [?imports, ?other] example_state
                    = regenerateImports example_nuxt example_state"
    and 3: "app_templatesGenerated example_nuxt [?imports, ?other] example_state \<noteq> example_state"
    using app_templatesGenerated_regenerates [of example_nuxt "[?imports, ?other]" example_state]
    by blast+
  from 1 2 3 show ?thesis by blast
qed

end
